theory Spec2Isabelle
  imports Main
begin

section \<open>The particle conversion simulation: bootstrap of a run\<close>

text \<open>
  The source file \<^verbatim>\<open>src/simulation/particleconversion/particleconversion.cpp\<close> is a
  C++ \<^verbatim>\<open>main\<close> with three code generation blocks (cog, written in Python) that
  read the build configuration \<^verbatim>\<open>conf\<close> and print C++ statements into the file.
  The model has the same two stages: the generator blocks, functions of the
  configuration that return the statements they print, and \<^verbatim>\<open>main\<close>, which runs
  the fixed statements of the file and the generated ones in the order of the file.

  In the repository the three blocks are not yet expanded (nothing stands between a
  block and its end marker); the program that is built and run is the file after the
  generator has filled them in, and that is the program modelled here.

  What \<^verbatim>\<open>main\<close> does is calls into Geant4, ROOT and the simulation's own classes.
  The model records each call as an event, in program order; every call is taken to
  return (a call that throws or ends the process is outside the model).
  The generator prints a configuration value between the double quotes of a C++ string
  literal as it is, and the model takes the printed text as the string the program
  holds. That is what the compiler does with plain text (\<open>plain_text\<close> below); a
  backslash starts an escape sequence and gives another string, and a double quote or
  a line break ends the literal. The theorems that say which configured string the
  program uses assume that the string is plain text.
\<close>

subsection \<open>Build configuration and the generator blocks\<close>

text \<open>\<^verbatim>\<open>conf\<close> is a dictionary of sections, each a dictionary of entries.\<close>

type_synonym section_conf = "string \<rightharpoonup> string"
type_synonym conf = "string \<rightharpoonup> section_conf"

text \<open>The C++ statements the generator blocks can print.\<close>

datatype stmt =
    AssignMacroFolder string      \<comment> \<open>\<^verbatim>\<open>macroFolder = "...";\<close>\<close>
  | AssignOutputfileName string   \<comment> \<open>\<^verbatim>\<open>outputfileName = "...";\<close>\<close>
  | DeclUI                        \<comment> \<open>\<^verbatim>\<open>G4UIExecutive* ui = new G4UIExecutive(argc, argv);\<close>\<close>
  | DeclUImanager                 \<comment> \<open>\<^verbatim>\<open>G4UImanager* UImanager = G4UImanager::GetUIpointer();\<close>\<close>
  | ApplyMacroPath                \<comment> \<open>\<^verbatim>\<open>UImanager->ApplyCommand("/control/macroPath " + macroFolder);\<close>\<close>
  | ApplyExecute string           \<comment> \<open>\<^verbatim>\<open>UImanager->ApplyCommand("/control/execute ...");\<close>\<close>
  | StartSession                  \<comment> \<open>\<^verbatim>\<open>ui->SessionStart();\<close>\<close>
  | DeleteUI                      \<comment> \<open>\<^verbatim>\<open>delete ui;\<close>\<close>

text \<open>
  Text that a C++ string literal holds unchanged: printable ASCII characters other than
  the double quote, the backslash (escape sequences) and the question mark (trigraphs).
\<close>

definition plain_char :: "char \<Rightarrow> bool" where
  "plain_char c =
     ((32::nat) \<le> of_char c \<and> of_char c \<le> (126::nat) \<and>
      c \<noteq> CHR 0x22 \<and> c \<noteq> CHR 0x5C \<and> c \<noteq> CHR 0x3F)"

definition plain_text :: "string \<Rightarrow> bool" where
  "plain_text v = list_all plain_char v"

text \<open>
  Line 30: \<^verbatim>\<open>conf['particleconversion']['macro_folder']\<close>; a missing key raises
  KeyError and no program is generated (\<open>None\<close>).
\<close>

definition cog_macroFolder :: "conf \<Rightarrow> stmt list option" where
  "cog_macroFolder conf =
     (case conf ''particleconversion'' of
        None \<Rightarrow> None
      | Some d \<Rightarrow>
          (case d ''macro_folder'' of
             None \<Rightarrow> None
           | Some v \<Rightarrow> Some [AssignMacroFolder v]))"

text \<open>Line 43: \<^verbatim>\<open>conf["particleconversion"]["out_filename"]\<close>.\<close>

definition cog_outputfileName :: "conf \<Rightarrow> stmt list option" where
  "cog_outputfileName conf =
     (case conf ''particleconversion'' of
        None \<Rightarrow> None
      | Some d \<Rightarrow>
          (case d ''out_filename'' of
             None \<Rightarrow> None
           | Some v \<Rightarrow> Some [AssignOutputfileName v]))"

text \<open>Lines 76 to 82: \<^verbatim>\<open>ui_start()\<close> prints six statements.\<close>

definition ui_start :: "stmt list" where
  "ui_start =
     [DeclUI, DeclUImanager, ApplyMacroPath, ApplyExecute ''vis.mac'', StartSession, DeleteUI]"

text \<open>Lines 84 to 93: the block that prints the macro run or the UI session.\<close>

definition cog_dispatch :: "conf \<Rightarrow> stmt list option" where
  "cog_dispatch conf =
     (case conf ''particleconversion'' of
        None \<Rightarrow> None
      | Some d \<Rightarrow>
          (case d ''macro_path'' of
             Some macro_path \<Rightarrow>
               (if macro_path \<noteq> []
                then Some [DeclUImanager, ApplyMacroPath, ApplyExecute macro_path]
                else Some ui_start)
           | None \<Rightarrow> Some ui_start))"

text \<open>The three blocks run in the order of the file; the first KeyError stops the generation.\<close>

record generated =
  gen_macroFolder :: "stmt list"
  gen_outputfileName :: "stmt list"
  gen_dispatch :: "stmt list"

definition cog :: "conf \<Rightarrow> generated option" where
  "cog conf =
     (case cog_macroFolder conf of
        None \<Rightarrow> None
      | Some a \<Rightarrow>
          (case cog_outputfileName conf of
             None \<Rightarrow> None
           | Some b \<Rightarrow>
               (case cog_dispatch conf of
                  None \<Rightarrow> None
                | Some c \<Rightarrow>
                    Some \<lparr>gen_macroFolder = a, gen_outputfileName = b, gen_dispatch = c\<rparr>)))"

subsection \<open>Objects, events and the state of main\<close>

type_synonym addr = nat

text \<open>The classes \<^verbatim>\<open>main\<close> instantiates, with the constructor arguments it passes.\<close>

datatype ctor =
    RanecuEngine
  | G4MTRunManager
  | G4RunManager
  | PhysicsList
  | DetectorConstruction
  | ActionInitialization addr string
  | G4VisExecutive
  | G4UIExecutive int "string list"

datatype event =
    Cout string                          \<comment> \<open>one output statement on \<^verbatim>\<open>G4cout\<close>\<close>
  | New addr ctor                        \<comment> \<open>\<^verbatim>\<open>new C(...)\<close>, with the address of the object\<close>
  | SetTheEngine addr                    \<comment> \<open>\<^verbatim>\<open>G4Random::setTheEngine(p)\<close>\<close>
  | SetUserInitialization addr addr      \<comment> \<open>\<^verbatim>\<open>runManager->SetUserInitialization(p)\<close>\<close>
  | Initialize addr                      \<comment> \<open>\<^verbatim>\<open>visManager->Initialize()\<close>\<close>
  | GetUIpointer                         \<comment> \<open>\<^verbatim>\<open>G4UImanager::GetUIpointer()\<close>\<close>
  | ApplyCommand string                  \<comment> \<open>\<^verbatim>\<open>UImanager->ApplyCommand(c)\<close>\<close>
  | SessionStart addr                    \<comment> \<open>\<^verbatim>\<open>ui->SessionStart()\<close>, which returns when the session ends\<close>
  | Delete addr                          \<comment> \<open>\<^verbatim>\<open>delete p\<close>\<close>

text \<open>
  The local variables of \<^verbatim>\<open>main\<close> that the generated statements read or write
  (\<^verbatim>\<open>ui\<close> and \<^verbatim>\<open>UImanager\<close> exist once their declaration has run), the next free
  address and the events so far, oldest first.
\<close>

record state =
  outputfileName :: string
  macroFolder :: string
  ui :: "addr option"
  UImanager :: bool
  next_addr :: addr
  trace :: "event list"

definition emit :: "event \<Rightarrow> state \<Rightarrow> state" where
  "emit e s = s\<lparr>trace := trace s @ [e]\<rparr>"

definition new :: "ctor \<Rightarrow> state \<Rightarrow> addr \<times> state" where
  "new c s = (next_addr s, emit (New (next_addr s) c) (s\<lparr>next_addr := Suc (next_addr s)\<rparr>))"

text \<open>\<^verbatim>\<open>G4endl\<close> ends the line.\<close>

definition G4endl :: string where
  "G4endl = [CHR 0x0A]"

text \<open>
  A generated statement in the state of \<^verbatim>\<open>main\<close>. \<open>None\<close>: the statement uses a
  variable that is not declared, or declares one again (the file would not compile).
  The string of a literal is its printed text, which is right for \<open>plain_text\<close>.
\<close>

fun exec :: "string list \<Rightarrow> stmt \<Rightarrow> state \<Rightarrow> state option" where
  "exec argv (AssignMacroFolder v) s = Some (s\<lparr>macroFolder := v\<rparr>)"
| "exec argv (AssignOutputfileName v) s = Some (s\<lparr>outputfileName := v\<rparr>)"
| "exec argv DeclUI s =
     (case ui s of
        Some a \<Rightarrow> None
      | None \<Rightarrow>
          (let (p, s') = new (G4UIExecutive (int (length argv)) argv) s
           in Some (s'\<lparr>ui := Some p\<rparr>)))"
| "exec argv DeclUImanager s =
     (if UImanager s then None else Some (emit GetUIpointer (s\<lparr>UImanager := True\<rparr>)))"
| "exec argv ApplyMacroPath s =
     (if UImanager s
      then Some (emit (ApplyCommand (''/control/macroPath '' @ macroFolder s)) s)
      else None)"
| "exec argv (ApplyExecute m) s =
     (if UImanager s
      then Some (emit (ApplyCommand (''/control/execute '' @ m)) s)
      else None)"
| "exec argv StartSession s =
     (case ui s of None \<Rightarrow> None | Some p \<Rightarrow> Some (emit (SessionStart p) s))"
| "exec argv DeleteUI s =
     (case ui s of None \<Rightarrow> None | Some p \<Rightarrow> Some (emit (Delete p) s))"

fun exec_stmts :: "string list \<Rightarrow> stmt list \<Rightarrow> state \<Rightarrow> state option" where
  "exec_stmts argv [] s = Some s"
| "exec_stmts argv (c # cs) s =
     (case exec argv c s of None \<Rightarrow> None | Some s' \<Rightarrow> exec_stmts argv cs s')"

subsection \<open>main\<close>

text \<open>Lines 27 and 28: two empty strings; nothing allocated, nothing done yet.\<close>

definition init :: state where
  "init = \<lparr>outputfileName = [], macroFolder = [], ui = None, UImanager = False,
           next_addr = 0, trace = []\<rparr>"

text \<open>
  Lines 30 to 45. \<^verbatim>\<open>argv\<close> holds the program name and then the arguments, and
  \<^verbatim>\<open>argc\<close> is its length, so \<^verbatim>\<open>argv[1]\<close> and \<^verbatim>\<open>argv[2]\<close> are read in range.
\<close>

definition resolve :: "generated \<Rightarrow> string list \<Rightarrow> state \<Rightarrow> state option" where
  "resolve g argv s =
     (case exec_stmts argv (gen_macroFolder g) s of
        None \<Rightarrow> None
      | Some s1 \<Rightarrow>
          (let argc = int (length argv) in
           if argc = 2 then
             (let s2 = emit (Cout ''Using command line parameters as out file: '') s1;
                  s3 = s2\<lparr>outputfileName := argv ! 1\<rparr>
              in Some (emit (Cout (outputfileName s3 @ G4endl)) s3))
           else if argc = 3 then
             (let s2 = emit (Cout ''Using command line parameters as out file: '') s1;
                  s3 = s2\<lparr>outputfileName := argv ! 1\<rparr>;
                  s4 = s3\<lparr>macroFolder := argv ! 2\<rparr>
              in Some (emit (Cout (outputfileName s4 @ '' and also for macro directory ''
                                    @ macroFolder s4 @ G4endl)) s4))
           else exec_stmts argv (gen_outputfileName g) s1))"

text \<open>
  Lines 48 to 64: the random engine, the run manager (\<open>mt\<close>: the file is compiled with
  \<^verbatim>\<open>G4MULTITHREADED\<close>) and the three initializations. Returns \<^verbatim>\<open>runManager\<close>.
\<close>

definition assemble :: "bool \<Rightarrow> state \<Rightarrow> addr \<times> state" where
  "assemble mt s =
     (let (engine, s1) = new RanecuEngine s;
          s2 = emit (SetTheEngine engine) s1;
          (runManager, s3) = new (if mt then G4MTRunManager else G4RunManager) s2;
          (physicsList, s4) = new PhysicsList s3;
          s5 = emit (SetUserInitialization runManager physicsList) s4;
          (detectorConstruction, s6) = new DetectorConstruction s5;
          s7 = emit (SetUserInitialization runManager detectorConstruction) s6;
          (actionInitialization, s8) =
             new (ActionInitialization detectorConstruction (outputfileName s7)) s7;
          s9 = emit (SetUserInitialization runManager actionInitialization) s8
      in (runManager, s9))"

text \<open>Lines 66 to 70. Returns \<^verbatim>\<open>visManager\<close>.\<close>

definition visualization :: "state \<Rightarrow> addr \<times> state" where
  "visualization s =
     (let (visManager, s1) = new G4VisExecutive s
      in (visManager, emit (Initialize visManager) s1))"

text \<open>
  The whole of \<^verbatim>\<open>main\<close>: lines 27 to 45, 48 to 64, 66 to 70, the generated block of
  lines 73 to 95, and the two deletes of lines 97 and 98. The function has no
  \<^verbatim>\<open>return\<close>; control reaches the end of \<^verbatim>\<open>main\<close>, which in C++ returns 0.
  The result is the status and the events of the run.
\<close>

definition main :: "bool \<Rightarrow> generated \<Rightarrow> string list \<Rightarrow> (int \<times> event list) option" where
  "main mt g argv =
     (case resolve g argv init of
        None \<Rightarrow> None
      | Some s1 \<Rightarrow>
          (let (runManager, s2) = assemble mt s1;
               (visManager, s3) = visualization s2
           in case exec_stmts argv (gen_dispatch g) s3 of
                None \<Rightarrow> None
              | Some s4 \<Rightarrow>
                  (let s5 = emit (Delete visManager) s4;
                       s6 = emit (Delete runManager) s5
                   in Some (0, trace s6))))"

text \<open>Building from a configuration and running the program that was built.\<close>

definition run :: "bool \<Rightarrow> conf \<Rightarrow> string list \<Rightarrow> (int \<times> event list) option" where
  "run mt conf argv = (case cog conf of None \<Rightarrow> None | Some g \<Rightarrow> main mt g argv)"

subsection \<open>Reading the events of a run\<close>

text \<open>Kinds of events, as predicates, so that the order of a run can be stated.\<close>

fun is_cout :: "event \<Rightarrow> bool" where
  "is_cout (Cout x) = True"
| "is_cout _ = False"

text \<open>A registration with the run manager.\<close>

fun is_registration :: "event \<Rightarrow> bool" where
  "is_registration (SetUserInitialization r p) = True"
| "is_registration _ = False"

text \<open>The construction of one of the three subsystems, or a registration.\<close>

fun is_subsystem :: "event \<Rightarrow> bool" where
  "is_subsystem (New a PhysicsList) = True"
| "is_subsystem (New a DetectorConstruction) = True"
| "is_subsystem (New a (ActionInitialization d n)) = True"
| "is_subsystem (SetUserInitialization r p) = True"
| "is_subsystem _ = False"

text \<open>The opening of a UI session, a command given to the command interpreter, the session loop.\<close>

fun is_ui_open :: "event \<Rightarrow> bool" where
  "is_ui_open (New a (G4UIExecutive n v)) = True"
| "is_ui_open _ = False"

fun is_command :: "event \<Rightarrow> bool" where
  "is_command (ApplyCommand c) = True"
| "is_command _ = False"

fun is_session_start :: "event \<Rightarrow> bool" where
  "is_session_start (SessionStart a) = True"
| "is_session_start _ = False"

text \<open>An action of the execution mode: any of the three.\<close>

definition is_mode_action :: "event \<Rightarrow> bool" where
  "is_mode_action e = (is_ui_open e \<or> is_command e \<or> is_session_start e)"

text \<open>The construction or the initialization of the visualization manager.\<close>

fun is_vis_event :: "event \<Rightarrow> bool" where
  "is_vis_event (New a G4VisExecutive) = True"
| "is_vis_event (Initialize a) = True"
| "is_vis_event _ = False"

text \<open>The events before the first one of a kind, and the events from it on.\<close>

definition before_first :: "(event \<Rightarrow> bool) \<Rightarrow> event list \<Rightarrow> event list" where
  "before_first P t = takeWhile (\<lambda>e. \<not> P e) t"

definition from_first :: "(event \<Rightarrow> bool) \<Rightarrow> event list \<Rightarrow> event list" where
  "from_first P t = dropWhile (\<lambda>e. \<not> P e) t"

text \<open>
  The two dispatch paths of the specification, read off the events of a run.
  BATCH: commands go to the command interpreter and no UI session is opened.
  INTERACTIVE: a UI session is opened and its loop is run.
\<close>

definition batch_path :: "event list \<Rightarrow> bool" where
  "batch_path t = (list_ex is_command t \<and> \<not> list_ex is_ui_open t)"

definition interactive_path :: "event list \<Rightarrow> bool" where
  "interactive_path t = (list_ex is_ui_open t \<and> list_ex is_session_start t)"

subsection \<open>The events of a whole run, written out\<close>

text \<open>
  The lemmas below show that \<open>main\<close> produces these sequences; they are here to keep
  those lemmas short. Lines 48 to 70 with the addresses that a run gives the objects:
\<close>

definition setup_events :: "bool \<Rightarrow> string \<Rightarrow> event list" where
  "setup_events mt out =
     [New 0 RanecuEngine, SetTheEngine 0,
      New 1 (if mt then G4MTRunManager else G4RunManager),
      New 2 PhysicsList, SetUserInitialization 1 2,
      New 3 DetectorConstruction, SetUserInitialization 1 3,
      New 4 (ActionInitialization 3 out), SetUserInitialization 1 4,
      New 5 G4VisExecutive, Initialize 5]"

text \<open>The three statements of the macro run, and the six of the UI session:\<close>

definition macro_events :: "string \<Rightarrow> string \<Rightarrow> event list" where
  "macro_events dir p =
     [GetUIpointer, ApplyCommand (''/control/macroPath '' @ dir),
      ApplyCommand (''/control/execute '' @ p)]"

definition session_events :: "string list \<Rightarrow> string \<Rightarrow> event list" where
  "session_events argv dir =
     [New 6 (G4UIExecutive (int (length argv)) argv), GetUIpointer,
      ApplyCommand (''/control/macroPath '' @ dir),
      ApplyCommand ''/control/execute vis.mac'', SessionStart 6, Delete 6]"

text \<open>Lines 97 and 98:\<close>

definition teardown_events :: "event list" where
  "teardown_events = [Delete 5, Delete 1]"

subsection \<open>Example configurations\<close>

text \<open>No \<^verbatim>\<open>macro_path\<close> entry.\<close>

definition sec_default :: section_conf where
  "sec_default = [''macro_folder'' \<mapsto> ''macros'', ''out_filename'' \<mapsto> ''out.root'']"

definition conf_default :: conf where
  "conf_default = [''particleconversion'' \<mapsto> sec_default]"

text \<open>A \<^verbatim>\<open>macro_path\<close> entry that names a macro.\<close>

definition sec_batch :: section_conf where
  "sec_batch = [''macro_folder'' \<mapsto> ''macros'', ''out_filename'' \<mapsto> ''out.root'',
                ''macro_path'' \<mapsto> ''batch.mac'']"

definition conf_batch :: conf where
  "conf_batch = [''particleconversion'' \<mapsto> sec_batch]"

text \<open>A \<^verbatim>\<open>macro_path\<close> entry that is the empty string.\<close>

definition sec_empty :: section_conf where
  "sec_empty = [''macro_folder'' \<mapsto> ''macros'', ''out_filename'' \<mapsto> ''out.root'',
                ''macro_path'' \<mapsto> []]"

definition conf_empty :: conf where
  "conf_empty = [''particleconversion'' \<mapsto> sec_empty]"

section \<open>What the generator produces and what main does with it\<close>

lemma cog_result:
  assumes "conf ''particleconversion'' = Some d" and "d ''macro_folder'' = Some mf"
    and "d ''out_filename'' = Some onm"
  shows "cog conf = Some \<lparr>gen_macroFolder = [AssignMacroFolder mf],
           gen_outputfileName = [AssignOutputfileName onm],
           gen_dispatch = (case d ''macro_path'' of
                             Some p \<Rightarrow> if p \<noteq> [] then [DeclUImanager, ApplyMacroPath, ApplyExecute p]
                                       else ui_start
                           | None \<Rightarrow> ui_start)\<rparr>"
  using assms
  by (simp add: cog_def cog_macroFolder_def cog_outputfileName_def cog_dispatch_def
      split: option.split)

lemma resolve_props:
  assumes "gen_macroFolder g = [AssignMacroFolder mf]"
    and "gen_outputfileName g = [AssignOutputfileName onm]"
  shows "\<exists>s. resolve g argv init = Some s \<and> next_addr s = 0 \<and> ui s = None \<and> \<not> UImanager s \<and>
           list_all is_cout (trace s) \<and>
           outputfileName s = (if length argv = 2 \<or> length argv = 3 then argv ! 1 else onm) \<and>
           macroFolder s = (if length argv = 3 then argv ! 2 else mf)"
  using assms
  by (simp add: resolve_def init_def emit_def Let_def)

lemma main_ui_start:
  assumes "resolve g argv init = Some s" and "next_addr s = 0" and "ui s = None"
    and "\<not> UImanager s" and "gen_dispatch g = ui_start"
  shows "main mt g argv =
           Some (0, trace s @ setup_events mt (outputfileName s) @
                    session_events argv (macroFolder s) @ teardown_events)"
  using assms
  by (simp add: main_def assemble_def visualization_def new_def emit_def ui_start_def Let_def
      setup_events_def session_events_def teardown_events_def)

lemma main_macro:
  assumes "resolve g argv init = Some s" and "next_addr s = 0" and "ui s = None"
    and "\<not> UImanager s" and "gen_dispatch g = [DeclUImanager, ApplyMacroPath, ApplyExecute p]"
  shows "main mt g argv =
           Some (0, trace s @ setup_events mt (outputfileName s) @
                    macro_events (macroFolder s) p @ teardown_events)"
  using assms
  by (simp add: main_def assemble_def visualization_def new_def emit_def Let_def
      setup_events_def macro_events_def teardown_events_def)

text \<open>
  Every run of a generated program is one of two: the macro run, when the configuration
  has a non-empty \<^verbatim>\<open>macro_path\<close>, and the UI session otherwise. In both, the events are
  the output of lines 33 to 45 and then a fixed sequence.
\<close>

lemma run_cases [consumes 3, case_names macro ui]:
  assumes "conf ''particleconversion'' = Some d" and "d ''macro_folder'' = Some mf"
    and "d ''out_filename'' = Some onm"
  obtains
    (macro) g s p where "d ''macro_path'' = Some p" and "p \<noteq> []"
      and "cog conf = Some g" and "resolve g argv init = Some s"
      and "list_all is_cout (trace s)"
      and "outputfileName s = (if length argv = 2 \<or> length argv = 3 then argv ! 1 else onm)"
      and "macroFolder s = (if length argv = 3 then argv ! 2 else mf)"
      and "run mt conf argv =
             Some (0, trace s @ setup_events mt (outputfileName s) @
                      macro_events (macroFolder s) p @ teardown_events)"
  | (ui) g s where "d ''macro_path'' = None \<or> d ''macro_path'' = Some []"
      and "cog conf = Some g" and "resolve g argv init = Some s"
      and "list_all is_cout (trace s)"
      and "outputfileName s = (if length argv = 2 \<or> length argv = 3 then argv ! 1 else onm)"
      and "macroFolder s = (if length argv = 3 then argv ! 2 else mf)"
      and "run mt conf argv =
             Some (0, trace s @ setup_events mt (outputfileName s) @
                      session_events argv (macroFolder s) @ teardown_events)"
proof -
  define g where "g = \<lparr>gen_macroFolder = [AssignMacroFolder mf],
           gen_outputfileName = [AssignOutputfileName onm],
           gen_dispatch = (case d ''macro_path'' of
                             Some p \<Rightarrow> if p \<noteq> [] then [DeclUImanager, ApplyMacroPath, ApplyExecute p]
                                       else ui_start
                           | None \<Rightarrow> ui_start)\<rparr>"
  have g: "cog conf = Some g"
    unfolding g_def using assms by (rule cog_result)
  have "gen_macroFolder g = [AssignMacroFolder mf]"
    and "gen_outputfileName g = [AssignOutputfileName onm]"
    by (simp_all add: g_def)
  from resolve_props [OF this, of argv] obtain s where s: "resolve g argv init = Some s"
    and s0: "next_addr s = 0" "ui s = None" "\<not> UImanager s"
    and sc: "list_all is_cout (trace s)"
    and so: "outputfileName s = (if length argv = 2 \<or> length argv = 3 then argv ! 1 else onm)"
    and sm: "macroFolder s = (if length argv = 3 then argv ! 2 else mf)"
    by blast
  show thesis
  proof (cases "\<exists>p. d ''macro_path'' = Some p \<and> p \<noteq> []")
    case True
    then obtain p where p: "d ''macro_path'' = Some p" "p \<noteq> []" by blast
    then have "gen_dispatch g = [DeclUImanager, ApplyMacroPath, ApplyExecute p]"
      by (simp add: g_def)
    from main_macro [OF s s0 this, of mt] g
    have "run mt conf argv =
             Some (0, trace s @ setup_events mt (outputfileName s) @
                      macro_events (macroFolder s) p @ teardown_events)"
      by (simp add: run_def)
    with p g s sc so sm show thesis by (rule macro)
  next
    case False
    then have np: "d ''macro_path'' = None \<or> d ''macro_path'' = Some []"
      by (cases "d ''macro_path''") auto
    then have "gen_dispatch g = ui_start"
      by (auto simp add: g_def)
    from main_ui_start [OF s s0 this, of mt] g
    have "run mt conf argv =
             Some (0, trace s @ setup_events mt (outputfileName s) @
                      session_events argv (macroFolder s) @ teardown_events)"
      by (simp add: run_def)
    with np g s sc so sm show thesis by (rule ui)
  qed
qed

text \<open>The output statements are none of the events the properties below look at.\<close>

lemma cout_filter:
  assumes "list_all is_cout xs" and "\<And>x. \<not> P (Cout x)"
  shows "filter P xs = []"
  using assms by (induction xs) (auto elim: is_cout.elims)

lemma cout_before_first:
  assumes "list_all is_cout xs" and "\<And>x. \<not> P (Cout x)"
  shows "before_first P (xs @ ys) = xs @ before_first P ys"
  using assms by (induction xs) (auto simp add: before_first_def elim: is_cout.elims)

lemma cout_from_first:
  assumes "list_all is_cout xs" and "\<And>x. \<not> P (Cout x)"
  shows "from_first P (xs @ ys) = from_first P ys"
  using assms by (induction xs) (auto simp add: from_first_def elim: is_cout.elims)

lemma cout_list_ex:
  assumes "list_all is_cout xs" and "\<And>x. \<not> P (Cout x)"
  shows "\<not> list_ex P xs"
  using assms by (induction xs) (auto elim: is_cout.elims)

lemma cout_not_mem:
  assumes "list_all is_cout xs" and "\<not> is_cout e"
  shows "e \<notin> set xs"
  using assms by (induction xs) auto

section \<open>The configuration resolver\<close>

text \<open>
  Claim C1. For every argument list, lines 30 to 45 leave the documented pair in
  \<^verbatim>\<open>outputfileName\<close> and \<^verbatim>\<open>macroFolder\<close>: with one argument, that argument and the
  configured \<^verbatim>\<open>macro_folder\<close>; with two arguments, the first and the second; with no
  argument or more than two, the configured \<^verbatim>\<open>out_filename\<close> and \<^verbatim>\<open>macro_folder\<close>.
  The arguments are \<^verbatim>\<open>argv\<close> without the program name. The two configured
  defaults are plain text, so that the program holds them as configured.
\<close>

theorem resolver_pair:
  assumes "conf ''particleconversion'' = Some d" and "d ''macro_folder'' = Some mf"
    and "d ''out_filename'' = Some onm"
    and "plain_text mf" and "plain_text onm"
  shows "\<exists>g s. cog conf = Some g \<and> resolve g argv init = Some s \<and>
           (outputfileName s, macroFolder s) =
             (case drop 1 argv of
                [a] \<Rightarrow> (a, mf)
              | [a, b] \<Rightarrow> (a, b)
              | _ \<Rightarrow> (onm, mf))"
proof -
  from assms(1-3) obtain g s
    where g: "cog conf = Some g" and s: "resolve g argv init = Some s"
    and so: "outputfileName s = (if length argv = 2 \<or> length argv = 3 then argv ! 1 else onm)"
    and sm: "macroFolder s = (if length argv = 3 then argv ! 2 else mf)"
    by (cases rule: run_cases [where argv = argv]) blast+
  have "(outputfileName s, macroFolder s) =
             (case drop 1 argv of
                [a] \<Rightarrow> (a, mf)
              | [a, b] \<Rightarrow> (a, b)
              | _ \<Rightarrow> (onm, mf))"
  proof (cases argv)
    case Nil
    with so sm show ?thesis by simp
  next
    case (Cons prog args)
    note argv = this
    show ?thesis
    proof (cases args)
      case Nil
      with so sm argv show ?thesis by simp
    next
      case (Cons a as)
      note args = this
      show ?thesis
      proof (cases as)
        case Nil
        with so sm argv args show ?thesis by simp
      next
        case (Cons b bs)
        with so sm argv args show ?thesis by (cases bs) simp_all
      qed
    qed
  qed
  with g s show ?thesis by blast
qed

theorem resolver_pair_witness:
  "conf_default ''particleconversion'' = Some sec_default \<and>
   sec_default ''macro_folder'' = Some ''macros'' \<and>
   sec_default ''out_filename'' = Some ''out.root'' \<and>
   plain_text ''macros'' \<and> plain_text ''out.root'' \<and>
   (\<exists>g s. cog conf_default = Some g \<and>
      resolve g [''particleconversion'', ''run42.root''] init = Some s \<and>
      (outputfileName s, macroFolder s) = (''run42.root'', ''macros''))"
proof -
  have h: "conf_default ''particleconversion'' = Some sec_default"
    "sec_default ''macro_folder'' = Some ''macros''"
    "sec_default ''out_filename'' = Some ''out.root''"
    "plain_text ''macros''" "plain_text ''out.root''"
    by (simp_all add: conf_default_def sec_default_def plain_text_def plain_char_def)
  from resolver_pair [of conf_default sec_default "''macros''" "''out.root''"
      "[''particleconversion'', ''run42.root'']", OF h]
  show ?thesis using h by simp
qed

section \<open>The order of a run\<close>

lemmas run_events = setup_events_def macro_events_def session_events_def teardown_events_def

text \<open>
  Claim C3. In every run the three subsystems are registered with the run manager in
  the order physics list, detector construction, action initialization, and the action
  initialization is constructed after the detector construction, from the address of
  that detector construction and the resolved \<^verbatim>\<open>outputfileName\<close>. The events that
  construct or register a subsystem are exactly these six, in this order.
\<close>

theorem registration_order:
  assumes "conf ''particleconversion'' = Some d" and "d ''macro_folder'' = Some mf"
    and "d ''out_filename'' = Some onm"
  shows "\<exists>g s t rm phys geo act.
           cog conf = Some g \<and> resolve g argv init = Some s \<and>
           run mt conf argv = Some (0, t) \<and>
           New rm (if mt then G4MTRunManager else G4RunManager) \<in> set t \<and>
           distinct [rm, phys, geo, act] \<and>
           filter is_subsystem t =
             [New phys PhysicsList, SetUserInitialization rm phys,
              New geo DetectorConstruction, SetUserInitialization rm geo,
              New act (ActionInitialization geo (outputfileName s)),
              SetUserInitialization rm act]"
  using assms
proof (cases rule: run_cases [where argv = argv and mt = mt])
  case (macro g s p)
  define t where "t = trace s @ setup_events mt (outputfileName s) @
                      macro_events (macroFolder s) p @ teardown_events"
  from macro(5) have "filter is_subsystem (trace s) = []"
    by (simp add: cout_filter)
  then have "New 1 (if mt then G4MTRunManager else G4RunManager) \<in> set t \<and>
      distinct [1, 2, 3, 4 :: nat] \<and>
      filter is_subsystem t =
             [New 2 PhysicsList, SetUserInitialization 1 2,
              New 3 DetectorConstruction, SetUserInitialization 1 3,
              New 4 (ActionInitialization 3 (outputfileName s)),
              SetUserInitialization 1 4]"
    by (simp add: t_def run_events)
  with macro(3,4,8) show ?thesis unfolding t_def by blast
next
  case (ui g s)
  define t where "t = trace s @ setup_events mt (outputfileName s) @
                      session_events argv (macroFolder s) @ teardown_events"
  from ui(4) have "filter is_subsystem (trace s) = []"
    by (simp add: cout_filter)
  then have "New 1 (if mt then G4MTRunManager else G4RunManager) \<in> set t \<and>
      distinct [1, 2, 3, 4 :: nat] \<and>
      filter is_subsystem t =
             [New 2 PhysicsList, SetUserInitialization 1 2,
              New 3 DetectorConstruction, SetUserInitialization 1 3,
              New 4 (ActionInitialization 3 (outputfileName s)),
              SetUserInitialization 1 4]"
    by (simp add: t_def run_events)
  with ui(2,3,7) show ?thesis unfolding t_def by blast
qed

theorem registration_order_witness:
  "conf_default ''particleconversion'' = Some sec_default \<and>
   sec_default ''macro_folder'' = Some ''macros'' \<and>
   sec_default ''out_filename'' = Some ''out.root'' \<and>
   (\<exists>g s t rm phys geo act.
      cog conf_default = Some g \<and>
      resolve g [''particleconversion'', ''run42.root''] init = Some s \<and>
      run False conf_default [''particleconversion'', ''run42.root''] = Some (0, t) \<and>
      New rm G4RunManager \<in> set t \<and>
      distinct [rm, phys, geo, act] \<and>
      filter is_subsystem t =
        [New phys PhysicsList, SetUserInitialization rm phys,
         New geo DetectorConstruction, SetUserInitialization rm geo,
         New act (ActionInitialization geo (outputfileName s)),
         SetUserInitialization rm act])"
proof -
  have h: "conf_default ''particleconversion'' = Some sec_default"
    "sec_default ''macro_folder'' = Some ''macros''"
    "sec_default ''out_filename'' = Some ''out.root''"
    by (simp_all add: conf_default_def sec_default_def)
  from registration_order [of conf_default sec_default "''macros''" "''out.root''"
      "[''particleconversion'', ''run42.root'']" False, OF h]
  show ?thesis using h by simp
qed

text \<open>
  Claim C4. In every run the three registrations come before any action of the
  execution mode (a UI session opened, a command applied, the session loop): three
  registrations before the first such action, none from it on.
\<close>

theorem registration_before_mode_actions:
  assumes "conf ''particleconversion'' = Some d" and "d ''macro_folder'' = Some mf"
    and "d ''out_filename'' = Some onm"
  shows "\<exists>t. run mt conf argv = Some (0, t) \<and>
           list_ex is_mode_action t \<and>
           length (filter is_registration (before_first is_mode_action t)) = 3 \<and>
           filter is_registration (from_first is_mode_action t) = []"
  using assms
proof (cases rule: run_cases [where argv = argv and mt = mt])
  case (macro g s p)
  from macro(5) have "filter is_registration (trace s) = []"
    and "\<And>ys. before_first is_mode_action (trace s @ ys) = trace s @ before_first is_mode_action ys"
    and "\<And>ys. from_first is_mode_action (trace s @ ys) = from_first is_mode_action ys"
    by (simp_all add: cout_filter cout_before_first cout_from_first is_mode_action_def)
  with macro(8) show ?thesis
    by (simp add: run_events before_first_def from_first_def is_mode_action_def)
next
  case (ui g s)
  from ui(4) have "filter is_registration (trace s) = []"
    and "\<And>ys. before_first is_mode_action (trace s @ ys) = trace s @ before_first is_mode_action ys"
    and "\<And>ys. from_first is_mode_action (trace s @ ys) = from_first is_mode_action ys"
    by (simp_all add: cout_filter cout_before_first cout_from_first is_mode_action_def)
  with ui(7) show ?thesis
    by (simp add: run_events before_first_def from_first_def is_mode_action_def)
qed

theorem registration_before_mode_actions_witness:
  "conf_batch ''particleconversion'' = Some sec_batch \<and>
   sec_batch ''macro_folder'' = Some ''macros'' \<and>
   sec_batch ''out_filename'' = Some ''out.root'' \<and>
   (\<exists>t. run False conf_batch [''particleconversion''] = Some (0, t) \<and>
      list_ex is_mode_action t \<and>
      length (filter is_registration (before_first is_mode_action t)) = 3 \<and>
      filter is_registration (from_first is_mode_action t) = [])"
proof -
  have h: "conf_batch ''particleconversion'' = Some sec_batch"
    "sec_batch ''macro_folder'' = Some ''macros''"
    "sec_batch ''out_filename'' = Some ''out.root''"
    by (simp_all add: conf_batch_def sec_batch_def)
  from registration_before_mode_actions [of conf_batch sec_batch "''macros''" "''out.root''"
      False "[''particleconversion'']", OF h]
  show ?thesis using h by simp
qed

text \<open>
  Claim C7. In every run, on either path, the visualization manager is constructed and
  initialized before the first command goes to the command interpreter, and so before
  any macro is executed.
\<close>

theorem vis_before_commands:
  assumes "conf ''particleconversion'' = Some d" and "d ''macro_folder'' = Some mf"
    and "d ''out_filename'' = Some onm"
  shows "\<exists>t vis. run mt conf argv = Some (0, t) \<and>
           list_ex is_command t \<and>
           filter is_vis_event (before_first is_command t) =
             [New vis G4VisExecutive, Initialize vis]"
  using assms
proof (cases rule: run_cases [where argv = argv and mt = mt])
  case (macro g s p)
  from macro(5) have "filter is_vis_event (trace s) = []"
    and "\<And>ys. before_first is_command (trace s @ ys) = trace s @ before_first is_command ys"
    by (simp_all add: cout_filter cout_before_first)
  with macro(8) show ?thesis
    by (simp add: run_events before_first_def)
next
  case (ui g s)
  from ui(4) have "filter is_vis_event (trace s) = []"
    and "\<And>ys. before_first is_command (trace s @ ys) = trace s @ before_first is_command ys"
    by (simp_all add: cout_filter cout_before_first)
  with ui(7) show ?thesis
    by (simp add: run_events before_first_def)
qed

theorem vis_before_commands_witness:
  "conf_batch ''particleconversion'' = Some sec_batch \<and>
   sec_batch ''macro_folder'' = Some ''macros'' \<and>
   sec_batch ''out_filename'' = Some ''out.root'' \<and>
   (\<exists>t vis. run True conf_batch [''particleconversion'', ''run7.root''] = Some (0, t) \<and>
      list_ex is_command t \<and>
      filter is_vis_event (before_first is_command t) =
        [New vis G4VisExecutive, Initialize vis])"
proof -
  have h: "conf_batch ''particleconversion'' = Some sec_batch"
    "sec_batch ''macro_folder'' = Some ''macros''"
    "sec_batch ''out_filename'' = Some ''out.root''"
    by (simp_all add: conf_batch_def sec_batch_def)
  from vis_before_commands [of conf_batch sec_batch "''macros''" "''out.root''"
      True "[''particleconversion'', ''run7.root'']", OF h]
  show ?thesis using h by simp
qed

text \<open>
  Claim C8. In every run, on either path, the last two events are the deletion of the
  visualization manager and then the deletion of the run manager; every action of the
  execution mode is before them, and neither object is deleted earlier.
\<close>

theorem teardown_order:
  assumes "conf ''particleconversion'' = Some d" and "d ''macro_folder'' = Some mf"
    and "d ''out_filename'' = Some onm"
  shows "\<exists>t pre vis rm. run mt conf argv = Some (0, t) \<and>
           t = pre @ [Delete vis, Delete rm] \<and>
           New vis G4VisExecutive \<in> set pre \<and>
           New rm (if mt then G4MTRunManager else G4RunManager) \<in> set pre \<and>
           Delete vis \<notin> set pre \<and> Delete rm \<notin> set pre \<and>
           filter is_mode_action pre = filter is_mode_action t"
  using assms
proof (cases rule: run_cases [where argv = argv and mt = mt])
  case (macro g s p)
  define pre where "pre = trace s @ setup_events mt (outputfileName s) @
                      macro_events (macroFolder s) p"
  from macro(5) have "Delete 5 \<notin> set (trace s)" and "Delete 1 \<notin> set (trace s)"
    by (simp_all add: cout_not_mem)
  then have "New 5 G4VisExecutive \<in> set pre \<and>
           New 1 (if mt then G4MTRunManager else G4RunManager) \<in> set pre \<and>
           Delete 5 \<notin> set pre \<and> Delete 1 \<notin> set pre \<and>
           filter is_mode_action pre = filter is_mode_action (pre @ [Delete 5, Delete 1])"
    by (simp add: pre_def run_events is_mode_action_def)
  moreover from macro(8) have "run mt conf argv = Some (0, pre @ [Delete 5, Delete 1])"
    by (simp add: pre_def teardown_events_def)
  ultimately show ?thesis by blast
next
  case (ui g s)
  define pre where "pre = trace s @ setup_events mt (outputfileName s) @
                      session_events argv (macroFolder s)"
  from ui(4) have "Delete 5 \<notin> set (trace s)" and "Delete 1 \<notin> set (trace s)"
    by (simp_all add: cout_not_mem)
  then have "New 5 G4VisExecutive \<in> set pre \<and>
           New 1 (if mt then G4MTRunManager else G4RunManager) \<in> set pre \<and>
           Delete 5 \<notin> set pre \<and> Delete 1 \<notin> set pre \<and>
           filter is_mode_action pre = filter is_mode_action (pre @ [Delete 5, Delete 1])"
    by (simp add: pre_def run_events is_mode_action_def)
  moreover from ui(7) have "run mt conf argv = Some (0, pre @ [Delete 5, Delete 1])"
    by (simp add: pre_def teardown_events_def)
  ultimately show ?thesis by blast
qed

theorem teardown_order_witness:
  "conf_empty ''particleconversion'' = Some sec_empty \<and>
   sec_empty ''macro_folder'' = Some ''macros'' \<and>
   sec_empty ''out_filename'' = Some ''out.root'' \<and>
   (\<exists>t pre vis rm. run True conf_empty [''particleconversion'', ''a'', ''b'', ''c''] = Some (0, t) \<and>
      t = pre @ [Delete vis, Delete rm] \<and>
      New vis G4VisExecutive \<in> set pre \<and>
      New rm G4MTRunManager \<in> set pre \<and>
      Delete vis \<notin> set pre \<and> Delete rm \<notin> set pre \<and>
      filter is_mode_action pre = filter is_mode_action t)"
proof -
  have h: "conf_empty ''particleconversion'' = Some sec_empty"
    "sec_empty ''macro_folder'' = Some ''macros''"
    "sec_empty ''out_filename'' = Some ''out.root''"
    by (simp_all add: conf_empty_def sec_empty_def)
  from teardown_order [of conf_empty sec_empty "''macros''" "''out.root''"
      True "[''particleconversion'', ''a'', ''b'', ''c'']", OF h]
  show ?thesis using h by simp
qed

section \<open>The execution mode\<close>

text \<open>
  Claim C2, as the code has it. In every run exactly one of the two paths executes, and
  the choice depends on the configuration only: BATCH when \<^verbatim>\<open>macro_path\<close> is
  present and not the empty string, INTERACTIVE when it is absent or the empty string.
\<close>

theorem dispatch_exactly_one:
  assumes "conf ''particleconversion'' = Some d" and "d ''macro_folder'' = Some mf"
    and "d ''out_filename'' = Some onm"
  shows "\<exists>t. run mt conf argv = Some (0, t) \<and>
           (batch_path t \<longleftrightarrow> \<not> interactive_path t) \<and>
           (batch_path t \<longleftrightarrow> (\<exists>p. d ''macro_path'' = Some p \<and> p \<noteq> []))"
  using assms
proof (cases rule: run_cases [where argv = argv and mt = mt])
  case (macro g s p)
  from macro(5) have "\<not> list_ex is_command (trace s)"
    and "\<not> list_ex is_ui_open (trace s)"
    and "\<not> list_ex is_session_start (trace s)"
    by (simp_all add: cout_list_ex)
  with macro(1,2,8) show ?thesis
    by (simp add: batch_path_def interactive_path_def run_events)
next
  case (ui g s)
  from ui(4) have "\<not> list_ex is_command (trace s)"
    and "\<not> list_ex is_ui_open (trace s)"
    and "\<not> list_ex is_session_start (trace s)"
    by (simp_all add: cout_list_ex)
  with ui(1,7) show ?thesis
    by (auto simp add: batch_path_def interactive_path_def run_events)
qed

theorem dispatch_exactly_one_witness:
  "conf_batch ''particleconversion'' = Some sec_batch \<and>
   sec_batch ''macro_folder'' = Some ''macros'' \<and>
   sec_batch ''out_filename'' = Some ''out.root'' \<and>
   (\<exists>t. run True conf_batch [''particleconversion'', ''run7.root'', ''/opt/macros''] = Some (0, t) \<and>
      (batch_path t \<longleftrightarrow> \<not> interactive_path t) \<and>
      (batch_path t \<longleftrightarrow> (\<exists>p. sec_batch ''macro_path'' = Some p \<and> p \<noteq> [])))"
proof -
  have h: "conf_batch ''particleconversion'' = Some sec_batch"
    "sec_batch ''macro_folder'' = Some ''macros''"
    "sec_batch ''out_filename'' = Some ''out.root''"
    by (simp_all add: conf_batch_def sec_batch_def)
  from dispatch_exactly_one [of conf_batch sec_batch "''macros''" "''out.root''" True
      "[''particleconversion'', ''run7.root'', ''/opt/macros'']", OF h]
  show ?thesis using h by simp
qed

text \<open>
  Claim C2 says that the presence of \<^verbatim>\<open>macro_path\<close> alone decides. It does not:
  two configurations that both have the entry, one empty and one naming a macro, take
  different paths, and the one with the empty entry runs the UI session.
\<close>

theorem dispatch_presence_counterexample:
  "conf_empty ''particleconversion'' = Some sec_empty \<and>
   sec_empty ''macro_path'' \<noteq> None \<and>
   map_option (batch_path \<circ> snd) (run False conf_empty [''particleconversion'']) = Some False \<and>
   map_option (interactive_path \<circ> snd) (run False conf_empty [''particleconversion'']) = Some True \<and>
   conf_batch ''particleconversion'' = Some sec_batch \<and>
   sec_batch ''macro_path'' \<noteq> None \<and>
   map_option (batch_path \<circ> snd) (run False conf_batch [''particleconversion'']) = Some True \<and>
   map_option (interactive_path \<circ> snd) (run False conf_batch [''particleconversion'']) = Some False"
  by (simp add: conf_empty_def sec_empty_def conf_batch_def sec_batch_def run_def cog_def
      cog_macroFolder_def cog_outputfileName_def cog_dispatch_def ui_start_def main_def
      resolve_def init_def assemble_def visualization_def new_def emit_def batch_path_def
      interactive_path_def)

text \<open>
  Claim C5. On the INTERACTIVE path (\<^verbatim>\<open>macro_path\<close> absent, or empty) the execution
  mode starts with the construction of the UI session from \<^verbatim>\<open>argc\<close> and
  \<^verbatim>\<open>argv\<close>; then the macro directory is applied as search path, then
  \<^verbatim>\<open>vis.mac\<close> is executed, then the session loop is started, which returns when the
  session ends; what follows is only the three deletes.
\<close>

theorem interactive_sequence:
  assumes "conf ''particleconversion'' = Some d" and "d ''macro_folder'' = Some mf"
    and "d ''out_filename'' = Some onm"
    and "d ''macro_path'' = None \<or> d ''macro_path'' = Some []"
  shows "\<exists>g s t u vis rm.
           cog conf = Some g \<and> resolve g argv init = Some s \<and>
           run mt conf argv = Some (0, t) \<and>
           from_first is_mode_action t =
             [New u (G4UIExecutive (int (length argv)) argv), GetUIpointer,
              ApplyCommand (''/control/macroPath '' @ macroFolder s),
              ApplyCommand ''/control/execute vis.mac'',
              SessionStart u, Delete u, Delete vis, Delete rm]"
  using assms(1-3)
proof (cases rule: run_cases [where argv = argv and mt = mt])
  case (macro g s p)
  with assms(4) show ?thesis by simp
next
  case (ui g s)
  from ui(4)
  have "\<And>ys. from_first is_mode_action (trace s @ ys) = from_first is_mode_action ys"
    by (simp add: cout_from_first is_mode_action_def)
  then have "from_first is_mode_action (trace s @ setup_events mt (outputfileName s) @
                      session_events argv (macroFolder s) @ teardown_events) =
             [New 6 (G4UIExecutive (int (length argv)) argv), GetUIpointer,
              ApplyCommand (''/control/macroPath '' @ macroFolder s),
              ApplyCommand ''/control/execute vis.mac'',
              SessionStart 6, Delete 6, Delete 5, Delete 1]"
    by (simp add: run_events from_first_def is_mode_action_def)
  with ui(2,3,7) show ?thesis by blast
qed

theorem interactive_sequence_witness:
  "conf_default ''particleconversion'' = Some sec_default \<and>
   sec_default ''macro_folder'' = Some ''macros'' \<and>
   sec_default ''out_filename'' = Some ''out.root'' \<and>
   (sec_default ''macro_path'' = None \<or> sec_default ''macro_path'' = Some []) \<and>
   (\<exists>g s t u vis rm.
      cog conf_default = Some g \<and>
      resolve g [''particleconversion'', ''run42.root''] init = Some s \<and>
      run False conf_default [''particleconversion'', ''run42.root''] = Some (0, t) \<and>
      from_first is_mode_action t =
        [New u (G4UIExecutive 2 [''particleconversion'', ''run42.root'']), GetUIpointer,
         ApplyCommand (''/control/macroPath '' @ macroFolder s),
         ApplyCommand ''/control/execute vis.mac'',
         SessionStart u, Delete u, Delete vis, Delete rm])"
proof -
  have h: "conf_default ''particleconversion'' = Some sec_default"
    "sec_default ''macro_folder'' = Some ''macros''"
    "sec_default ''out_filename'' = Some ''out.root''"
    "sec_default ''macro_path'' = None \<or> sec_default ''macro_path'' = Some []"
    by (simp_all add: conf_default_def sec_default_def)
  from interactive_sequence [of conf_default sec_default "''macros''" "''out.root''"
      "[''particleconversion'', ''run42.root'']" False, OF h]
  show ?thesis using h by simp
qed

text \<open>
  Claim C6, as the code has it. On the BATCH path, which is the one taken when
  \<^verbatim>\<open>macro_path\<close> is present and not the empty string, the actions of the execution
  mode are two commands, the macro directory applied as search path and then the
  execution of the configured macro; no UI session is opened or started. The macro
  name is plain text, so that the command holds it as configured.
\<close>

theorem batch_sequence:
  assumes "conf ''particleconversion'' = Some d" and "d ''macro_folder'' = Some mf"
    and "d ''out_filename'' = Some onm"
    and "d ''macro_path'' = Some p" and "p \<noteq> []" and "plain_text p"
  shows "\<exists>g s t.
           cog conf = Some g \<and> resolve g argv init = Some s \<and>
           run mt conf argv = Some (0, t) \<and>
           filter is_mode_action t =
             [ApplyCommand (''/control/macroPath '' @ macroFolder s),
              ApplyCommand (''/control/execute '' @ p)] \<and>
           \<not> list_ex is_ui_open t \<and> \<not> list_ex is_session_start t"
  using assms(1-3)
proof (cases rule: run_cases [where argv = argv and mt = mt])
  case (macro g s q)
  from macro(1) assms(4) have q: "q = p" by simp
  from macro(5) have "filter is_mode_action (trace s) = []"
    and "\<not> list_ex is_ui_open (trace s)"
    and "\<not> list_ex is_session_start (trace s)"
    by (simp_all add: cout_filter cout_list_ex is_mode_action_def)
  then have "filter is_mode_action (trace s @ setup_events mt (outputfileName s) @
                      macro_events (macroFolder s) p @ teardown_events) =
             [ApplyCommand (''/control/macroPath '' @ macroFolder s),
              ApplyCommand (''/control/execute '' @ p)] \<and>
           \<not> list_ex is_ui_open (trace s @ setup_events mt (outputfileName s) @
                      macro_events (macroFolder s) p @ teardown_events) \<and>
           \<not> list_ex is_session_start (trace s @ setup_events mt (outputfileName s) @
                      macro_events (macroFolder s) p @ teardown_events)"
    by (simp add: run_events is_mode_action_def)
  with macro(3,4,8) q show ?thesis by blast
next
  case (ui g s)
  with assms(4,5) show ?thesis by auto
qed

theorem batch_sequence_witness:
  "conf_batch ''particleconversion'' = Some sec_batch \<and>
   sec_batch ''macro_folder'' = Some ''macros'' \<and>
   sec_batch ''out_filename'' = Some ''out.root'' \<and>
   sec_batch ''macro_path'' = Some ''batch.mac'' \<and> ''batch.mac'' \<noteq> [] \<and>
   plain_text ''batch.mac'' \<and>
   (\<exists>g s t.
      cog conf_batch = Some g \<and>
      resolve g [''particleconversion'', ''run7.root'', ''/opt/macros''] init = Some s \<and>
      run True conf_batch [''particleconversion'', ''run7.root'', ''/opt/macros''] = Some (0, t) \<and>
      filter is_mode_action t =
        [ApplyCommand (''/control/macroPath '' @ macroFolder s),
         ApplyCommand ''/control/execute batch.mac''] \<and>
      \<not> list_ex is_ui_open t \<and> \<not> list_ex is_session_start t)"
proof -
  have h: "conf_batch ''particleconversion'' = Some sec_batch"
    "sec_batch ''macro_folder'' = Some ''macros''"
    "sec_batch ''out_filename'' = Some ''out.root''"
    "sec_batch ''macro_path'' = Some ''batch.mac''" "''batch.mac'' \<noteq> []"
    "plain_text ''batch.mac''"
    by (simp_all add: conf_batch_def sec_batch_def plain_text_def plain_char_def)
  from batch_sequence [of conf_batch sec_batch "''macros''" "''out.root''" "''batch.mac''"
      "[''particleconversion'', ''run7.root'', ''/opt/macros'']" True, OF h]
  show ?thesis using h by simp
qed

text \<open>
  Claim C6 says that a present \<^verbatim>\<open>macro_path\<close> gives the macro run without a UI
  session. It does not when the entry is the empty string: the run opens a UI session,
  starts its loop, and the macro it executes is \<^verbatim>\<open>vis.mac\<close>.
\<close>

theorem batch_presence_counterexample:
  "conf_empty ''particleconversion'' = Some sec_empty \<and>
   sec_empty ''macro_path'' = Some [] \<and>
   map_option (list_ex is_ui_open \<circ> snd)
     (run True conf_empty [''particleconversion'', ''run7.root'']) = Some True \<and>
   map_option (list_ex is_session_start \<circ> snd)
     (run True conf_empty [''particleconversion'', ''run7.root'']) = Some True \<and>
   map_option (filter is_command \<circ> snd)
     (run True conf_empty [''particleconversion'', ''run7.root'']) =
       Some [ApplyCommand ''/control/macroPath macros'',
             ApplyCommand ''/control/execute vis.mac'']"
  by (simp add: conf_empty_def sec_empty_def run_def cog_def cog_macroFolder_def
      cog_outputfileName_def cog_dispatch_def ui_start_def main_def resolve_def init_def
      assemble_def visualization_def new_def emit_def)

text \<open>
  Claim C9. A \<^verbatim>\<open>macro_path\<close> entry that is the empty string gives the INTERACTIVE
  path, as a missing entry does: the generator prints the statements of
  \<^verbatim>\<open>ui_start()\<close>, and the run opens a UI session and is not a batch run.
\<close>

theorem empty_macro_path_interactive:
  assumes "conf ''particleconversion'' = Some d" and "d ''macro_folder'' = Some mf"
    and "d ''out_filename'' = Some onm"
    and "d ''macro_path'' = Some []"
  shows "cog_dispatch conf = Some ui_start \<and>
         (\<exists>t. run mt conf argv = Some (0, t) \<and> interactive_path t \<and> \<not> batch_path t)"
  using assms(1-3)
proof (cases rule: run_cases [where argv = argv and mt = mt])
  case (macro g s p)
  with assms(4) show ?thesis by simp
next
  case (ui g s)
  from assms(1,4) have "cog_dispatch conf = Some ui_start"
    by (simp add: cog_dispatch_def)
  moreover from ui(4) have "\<not> list_ex is_command (trace s)"
    and "\<not> list_ex is_ui_open (trace s)"
    and "\<not> list_ex is_session_start (trace s)"
    by (simp_all add: cout_list_ex)
  with ui(7) have "\<exists>t. run mt conf argv = Some (0, t) \<and> interactive_path t \<and> \<not> batch_path t"
    by (simp add: batch_path_def interactive_path_def run_events)
  ultimately show ?thesis by simp
qed

theorem empty_macro_path_interactive_witness:
  "conf_empty ''particleconversion'' = Some sec_empty \<and>
   sec_empty ''macro_folder'' = Some ''macros'' \<and>
   sec_empty ''out_filename'' = Some ''out.root'' \<and>
   sec_empty ''macro_path'' = Some [] \<and>
   cog_dispatch conf_empty = Some ui_start \<and>
   (\<exists>t. run True conf_empty [''particleconversion'', ''run7.root'', ''/opt/macros''] = Some (0, t) \<and>
      interactive_path t \<and> \<not> batch_path t)"
proof -
  have h: "conf_empty ''particleconversion'' = Some sec_empty"
    "sec_empty ''macro_folder'' = Some ''macros''"
    "sec_empty ''out_filename'' = Some ''out.root''"
    "sec_empty ''macro_path'' = Some []"
    by (simp_all add: conf_empty_def sec_empty_def)
  from empty_macro_path_interactive [of conf_empty sec_empty "''macros''" "''out.root''"
      True "[''particleconversion'', ''run7.root'', ''/opt/macros'']", OF h]
  show ?thesis using h by simp
qed

section \<open>The exit status\<close>

text \<open>
  Claim C10. Every run of a generated program reaches the end of \<^verbatim>\<open>main\<close>, on
  either path and for every argument list, and its status is 0.
\<close>

theorem exit_status_zero:
  assumes "conf ''particleconversion'' = Some d" and "d ''macro_folder'' = Some mf"
    and "d ''out_filename'' = Some onm"
  shows "\<exists>t. run mt conf argv = Some (0, t)"
  using assms
  by (cases rule: run_cases [where argv = argv and mt = mt]) simp_all

theorem exit_status_zero_witness:
  "conf_default ''particleconversion'' = Some sec_default \<and>
   sec_default ''macro_folder'' = Some ''macros'' \<and>
   sec_default ''out_filename'' = Some ''out.root'' \<and>
   (\<exists>t. run False conf_default [''particleconversion''] = Some (0, t))"
proof -
  have h: "conf_default ''particleconversion'' = Some sec_default"
    "sec_default ''macro_folder'' = Some ''macros''"
    "sec_default ''out_filename'' = Some ''out.root''"
    by (simp_all add: conf_default_def sec_default_def)
  from exit_status_zero [of conf_default sec_default "''macros''" "''out.root''"
      False "[''particleconversion'']", OF h]
  show ?thesis using h by simp
qed

end
